theory Spec2Isabelle
  imports Main "HOL-Library.Sublist"
begin

section \<open>Values exchanged by the services\<close>

text \<open>
  The three modules (\<^verbatim>\<open>main.py\<close>, \<^verbatim>\<open>app.py\<close>, \<^verbatim>\<open>app1.py\<close>) handle
  Python objects obtained from JSON: the request body given by Flask and the reply body
  given by \<^verbatim>\<open>response.json()\<close>. A JSON value is modelled as the Python object it
  parses to. A dict is an association list read with \<open>map_of\<close> (the first binding of a
  key is the dict's entry). Numbers are integers. A string is a list of \<open>char\<close>, each
  \<open>char\<close> standing for the code point of that number, so the strings of the model are
  Python's strings over the code points below 256 (ASCII and Latin-1); text with a higher
  code point is outside the model. Both bodies are taken as parsed: a request or a reply
  whose body is not JSON is outside the model.
\<close>

datatype json =
    JNull
  | JBool bool
  | JNum int
  | JStr string
  | JArr "json list"
  | JObj "(string \<times> json) list"

text \<open>The reply of the provider as \<^verbatim>\<open>requests\<close> presents it.\<close>

record reply =
  status_code :: nat
  reason :: string
  json_body :: json

text \<open>
  Python exceptions, each with the text \<^verbatim>\<open>str(e)\<close> gives (the messages are
  CPython's). \<open>ConnectionError\<close> stands
  for the \<^verbatim>\<open>RequestException\<close> raised by \<^verbatim>\<open>requests.post\<close> when the provider
  cannot be reached; \<open>HTTPError\<close> carries \<^verbatim>\<open>e.response\<close>.
\<close>

datatype py_exn =
    AttributeError string
  | KeyError string
  | IndexError string
  | TypeError string
  | ConnectionError string
  | HTTPError string reply

fun py_str :: "py_exn \<Rightarrow> string" where
  "py_str (AttributeError m) = m"
| "py_str (KeyError m) = m"
| "py_str (IndexError m) = m"
| "py_str (TypeError m) = m"
| "py_str (ConnectionError m) = m"
| "py_str (HTTPError m r) = m"

text \<open>Sequencing of computations that may raise.\<close>

definition and_then :: "py_exn + 'a \<Rightarrow> ('a \<Rightarrow> py_exn + 'b) \<Rightarrow> py_exn + 'b" where
  "and_then r f = (case r of Inl e \<Rightarrow> Inl e | Inr v \<Rightarrow> f v)"

section \<open>Python primitives used by the handlers\<close>

fun type_name :: "json \<Rightarrow> string" where
  "type_name JNull = ''NoneType''"
| "type_name (JBool b) = ''bool''"
| "type_name (JNum n) = ''int''"
| "type_name (JStr s) = ''str''"
| "type_name (JArr xs) = ''list''"
| "type_name (JObj kvs) = ''dict''"

text \<open>Truth value of an object, as \<^verbatim>\<open>not x\<close> tests it.\<close>

fun py_truthy :: "json \<Rightarrow> bool" where
  "py_truthy JNull = False"
| "py_truthy (JBool b) = b"
| "py_truthy (JNum n) = (n \<noteq> 0)"
| "py_truthy (JStr s) = (s \<noteq> [])"
| "py_truthy (JArr xs) = (xs \<noteq> [])"
| "py_truthy (JObj kvs) = (kvs \<noteq> [])"

definition no_attribute :: "json \<Rightarrow> string \<Rightarrow> py_exn" where
  "no_attribute v a =
     AttributeError ([CHR 0x27] @ type_name v @ ''' object has no attribute '' @ [CHR 0x27] @ a @ [CHR 0x27])"

definition not_subscriptable :: "json \<Rightarrow> py_exn" where
  "not_subscriptable v = TypeError ([CHR 0x27] @ type_name v @ ''' object is not subscriptable'')"

text \<open>\<^verbatim>\<open>d.get(k, default)\<close>: only a dict has the method.\<close>

fun py_get :: "json \<Rightarrow> string \<Rightarrow> json \<Rightarrow> py_exn + json" where
  "py_get (JObj kvs) k dflt = Inr (case map_of kvs k of None \<Rightarrow> dflt | Some v \<Rightarrow> v)"
| "py_get v k dflt = Inl (no_attribute v ''get'')"

text \<open>\<^verbatim>\<open>x[k]\<close> with a string key.\<close>

fun getitem_str :: "json \<Rightarrow> string \<Rightarrow> py_exn + json" where
  "getitem_str (JObj kvs) k =
     (case map_of kvs k of None \<Rightarrow> Inl (KeyError ([CHR 0x27] @ k @ [CHR 0x27])) | Some v \<Rightarrow> Inr v)"
| "getitem_str (JArr xs) k = Inl (TypeError ''list indices must be integers or slices, not str'')"
| "getitem_str (JStr s) k = Inl (TypeError (''string indices must be integers, not 'str'' @ [CHR 0x27]))"
| "getitem_str v k = Inl (not_subscriptable v)"

text \<open>\<^verbatim>\<open>x[0]\<close>. The keys of a dict parsed from JSON are strings, so \<open>0\<close> is never one.\<close>

fun getitem_0 :: "json \<Rightarrow> py_exn + json" where
  "getitem_0 (JArr []) = Inl (IndexError ''list index out of range'')"
| "getitem_0 (JArr (x # xs)) = Inr x"
| "getitem_0 (JStr []) = Inl (IndexError ''string index out of range'')"
| "getitem_0 (JStr (c # cs)) = Inr (JStr [c])"
| "getitem_0 (JObj kvs) = Inl (KeyError ''0'')"
| "getitem_0 v = Inl (not_subscriptable v)"

text \<open>\<^verbatim>\<open>sub in s\<close> on strings.\<close>

fun str_contains :: "string \<Rightarrow> string \<Rightarrow> bool" where
  "str_contains sub [] = (sub = [])"
| "str_contains sub (c # cs) = (take (length sub) (c # cs) = sub \<or> str_contains sub cs)"

text \<open>\<^verbatim>\<open>k in x\<close> for a string \<open>k\<close>.\<close>

fun py_in :: "string \<Rightarrow> json \<Rightarrow> py_exn + bool" where
  "py_in k (JObj kvs) = Inr (map_of kvs k \<noteq> None)"
| "py_in k (JArr xs) = Inr (JStr k \<in> set xs)"
| "py_in k (JStr s) = Inr (str_contains k s)"
| "py_in k v = Inl (TypeError (''argument of type '' @ [CHR 0x27] @ type_name v @ ''' is not iterable''))"

text \<open>
  \<^verbatim>\<open>str.strip()\<close> removes the white space at both ends. Below 256 Python counts as
  white space the code points 9 to 13, 28 to 32, 133 (next line) and 160 (no-break space).
\<close>

definition isspace :: "char \<Rightarrow> bool" where
  "isspace c = (c \<in> set [CHR 0x09, CHR 0x0A, CHR 0x0B, CHR 0x0C, CHR 0x0D,
                           CHR 0x1C, CHR 0x1D, CHR 0x1E, CHR 0x1F, CHR 0x20,
                           CHR 0x85, CHR 0xA0])"

definition str_strip :: "string \<Rightarrow> string" where
  "str_strip s = rev (dropWhile isspace (rev (dropWhile isspace s)))"

text \<open>
  \<^verbatim>\<open>str.lower()\<close> maps each code point on its own. Below 256 it changes the letters
  \<open>A\<close> to \<open>Z\<close> and the Latin-1 capitals 192 to 222 without 215 (the multiplication
  sign), each to the code point 32 above it.
\<close>

definition upper_chars :: string where
  "upper_chars =
     ''ABCDEFGHIJKLMNOPQRSTUVWXYZ'' @
       [CHR 0xC0, CHR 0xC1, CHR 0xC2, CHR 0xC3, CHR 0xC4, CHR 0xC5, CHR 0xC6, CHR 0xC7,
        CHR 0xC8, CHR 0xC9, CHR 0xCA, CHR 0xCB, CHR 0xCC, CHR 0xCD, CHR 0xCE, CHR 0xCF,
        CHR 0xD0, CHR 0xD1, CHR 0xD2, CHR 0xD3, CHR 0xD4, CHR 0xD5, CHR 0xD6, CHR 0xD8,
        CHR 0xD9, CHR 0xDA, CHR 0xDB, CHR 0xDC, CHR 0xDD, CHR 0xDE]"

definition lower_chars :: string where
  "lower_chars =
     ''abcdefghijklmnopqrstuvwxyz'' @
       [CHR 0xE0, CHR 0xE1, CHR 0xE2, CHR 0xE3, CHR 0xE4, CHR 0xE5, CHR 0xE6, CHR 0xE7,
        CHR 0xE8, CHR 0xE9, CHR 0xEA, CHR 0xEB, CHR 0xEC, CHR 0xED, CHR 0xEE, CHR 0xEF,
        CHR 0xF0, CHR 0xF1, CHR 0xF2, CHR 0xF3, CHR 0xF4, CHR 0xF5, CHR 0xF6, CHR 0xF8,
        CHR 0xF9, CHR 0xFA, CHR 0xFB, CHR 0xFC, CHR 0xFD, CHR 0xFE]"

definition lower_char :: "char \<Rightarrow> char" where
  "lower_char c = (case map_of (zip upper_chars lower_chars) c of None \<Rightarrow> c | Some l \<Rightarrow> l)"

definition str_lower :: "string \<Rightarrow> string" where
  "str_lower s = map lower_char s"

fun py_strip :: "json \<Rightarrow> py_exn + string" where
  "py_strip (JStr s) = Inr (str_strip s)"
| "py_strip v = Inl (no_attribute v ''strip'')"

fun py_lower :: "json \<Rightarrow> py_exn + string" where
  "py_lower (JStr s) = Inr (str_lower s)"
| "py_lower v = Inl (no_attribute v ''lower'')"

text \<open>\<^verbatim>\<open>str(n)\<close> for a status code.\<close>

definition digit :: "nat \<Rightarrow> char" where
  "digit d = ''0123456789'' ! d"

fun str_nat :: "nat \<Rightarrow> string" where
  "str_nat n = (if n < 10 then [digit n] else str_nat (n div 10) @ [digit (n mod 10)])"

declare str_nat.simps [simp del]

section \<open>Module state, the provider and the effects of a handler\<close>

text \<open>
  The module-level names of the three files. \<^verbatim>\<open>main.py\<close> has \<open>GEMINI_API_KEY\<close> and
  \<open>GEMINI_ENDPOINT\<close>; \<^verbatim>\<open>app.py\<close> has \<open>GEMINI_API_KEY\<close>, \<open>GEMINI_API_URL\<close> and
  \<open>SYSTEM_PROMPT\<close>; \<^verbatim>\<open>app1.py\<close> has \<open>GEMINI_API_KEY\<close> and \<open>GEMINI_API_URL\<close>.
  \<^verbatim>\<open>os.getenv\<close> gives \<open>None\<close> or a string.
\<close>

record module_globals =
  GEMINI_API_KEY :: "string option"
  GEMINI_API_URL :: string
  GEMINI_ENDPOINT :: string
  SYSTEM_PROMPT :: string

text \<open>One call of \<^verbatim>\<open>requests.post\<close>.\<close>

record outbound =
  url :: string
  headers :: "(string \<times> string) list"
  payload :: json

text \<open>
  What a handler can read and change: the module's globals, the lines printed so far (the
  literal text of each \<^verbatim>\<open>print\<close>, without the values its f-string interpolates) and
  the calls sent to the provider so far.
\<close>

record world =
  globals :: module_globals
  stdout :: "string list"
  sent :: "outbound list"

text \<open>
  What the provider does when it is called: the call fails at the network level with a
  message, or a reply with a JSON body comes back.
\<close>

datatype provider = Unreachable string | Replies reply

text \<open>What Flask sends back: the status and the object given to \<^verbatim>\<open>jsonify\<close>.\<close>

datatype http_response = Response nat json

text \<open>
  A handler returns a response, or lets an exception escape (\<open>Inl\<close>), and leaves a world.
\<close>

type_synonym handled = "(py_exn + http_response) \<times> world"

definition py_print :: "string \<Rightarrow> world \<Rightarrow> world" where
  "py_print line w = w\<lparr>stdout := stdout w @ [line]\<rparr>"

definition requests_post ::
  "provider \<Rightarrow> string \<Rightarrow> (string \<times> string) list \<Rightarrow> json \<Rightarrow> world \<Rightarrow> (py_exn + reply) \<times> world" where
  "requests_post env u hs p w =
     ((case env of Unreachable m \<Rightarrow> Inl (ConnectionError m) | Replies r \<Rightarrow> Inr r),
      w\<lparr>sent := sent w @ [\<lparr>url = u, headers = hs, payload = p\<rparr>]\<rparr>)"

text \<open>\<^verbatim>\<open>response.raise_for_status()\<close> of the requests library.\<close>

definition raise_for_status :: "string \<Rightarrow> reply \<Rightarrow> py_exn + reply" where
  "raise_for_status u r =
     (if 400 \<le> status_code r \<and> status_code r < 500 then
        Inl (HTTPError (str_nat (status_code r) @ '' Client Error: '' @ reason r @ '' for url: '' @ u) r)
      else if 500 \<le> status_code r \<and> status_code r < 600 then
        Inl (HTTPError (str_nat (status_code r) @ '' Server Error: '' @ reason r @ '' for url: '' @ u) r)
      else Inr r)"

text \<open>\<^verbatim>\<open>not GEMINI_API_KEY\<close>, and the key inside an f-string.\<close>

definition no_key :: "string option \<Rightarrow> bool" where
  "no_key k = (case k of None \<Rightarrow> True | Some s \<Rightarrow> s = [])"

definition str_key :: "string option \<Rightarrow> string" where
  "str_key k = (case k of None \<Rightarrow> ''None'' | Some s \<Rightarrow> s)"

section \<open>main.py\<close>

definition main_payload :: "json \<Rightarrow> json" where
  "main_payload user_message =
     JObj [(''model'', JStr ''gemini-pro''),
           (''messages'',
              JArr [JObj [(''role'', JStr ''system''),
                          (''content'', JStr ''You are a sentiment classifier. Only answer 'happy' or 'sad'.'')],
                    JObj [(''role'', JStr ''user''), (''content'', user_message)]]),
           (''max_tokens'', JNum 5)]"

text \<open>
  \<^verbatim>\<open>result.get("choices", [{}])[0].get("message", {}).get("content", "")\<close>
\<close>

definition main_content :: "json \<Rightarrow> py_exn + json" where
  "main_content result =
     and_then (py_get result ''choices'' (JArr [JObj []])) (\<lambda>choices.
     and_then (getitem_0 choices) (\<lambda>choice.
     and_then (py_get choice ''message'' (JObj [])) (\<lambda>message.
     py_get message ''content'' (JStr []))))"

text \<open>The \<^verbatim>\<open>except Exception as e\<close> clause of \<open>get_sentiment\<close>.\<close>

definition main_except :: "py_exn \<Rightarrow> http_response" where
  "main_except e = Response 500 (JObj [(''error'', JStr (py_str e)), (''sentiment'', JStr ''happy'')])"

definition main_get_sentiment :: "provider \<Rightarrow> json \<Rightarrow> world \<Rightarrow> handled" where
  "main_get_sentiment env data w =
     (case py_get data ''message'' (JStr []) of
        Inl e \<Rightarrow> (Inr (main_except e), w)
      | Inr user_message \<Rightarrow>
          if \<not> py_truthy user_message then
            (Inr (Response 400 (JObj [(''error'', JStr ''No message provided'')])), w)
          else
            let (response, w1) =
                  requests_post env (GEMINI_ENDPOINT (globals w))
                    [(''Authorization'', ''Bearer '' @ str_key (GEMINI_API_KEY (globals w))),
                     (''Content-Type'', ''application/json'')]
                    (main_payload user_message) w
            in (case and_then response (\<lambda>r.
                     and_then (main_content (json_body r)) (\<lambda>content.
                     and_then (py_strip content) (\<lambda>stripped. Inr (str_lower stripped)))) of
                  Inl e \<Rightarrow> (Inr (main_except e), w1)
                | Inr sentiment \<Rightarrow>
                    (Inr (Response 200
                       (JObj [(''sentiment'',
                               JStr (if sentiment \<notin> set [''happy'', ''sad''] then ''happy'' else sentiment))])),
                     w1)))"

section \<open>app.py and app1.py\<close>

text \<open>The payload both files send: the message and a system instruction.\<close>

definition gemini_payload :: "json \<Rightarrow> string \<Rightarrow> json" where
  "gemini_payload message system_prompt =
     JObj [(''contents'', JArr [JObj [(''parts'', JArr [JObj [(''text'', message)]])]]),
           (''systemInstruction'', JObj [(''parts'', JArr [JObj [(''text'', JStr system_prompt)]])])]"

text \<open>
  \<^verbatim>\<open>response_data['candidates'][0]['content']['parts'][0]['text']\<close>
\<close>

definition gemini_text :: "json \<Rightarrow> py_exn + json" where
  "gemini_text response_data =
     and_then (getitem_str response_data ''candidates'') (\<lambda>candidates.
     and_then (getitem_0 candidates) (\<lambda>candidate.
     and_then (getitem_str candidate ''content'') (\<lambda>content.
     and_then (getitem_str content ''parts'') (\<lambda>parts.
     and_then (getitem_0 parts) (\<lambda>part.
     getitem_str part ''text'')))))"

text \<open>
  The body of the \<^verbatim>\<open>try\<close> that the three routes of the two files share up to the
  extracted text: post, \<^verbatim>\<open>raise_for_status\<close>, \<^verbatim>\<open>response.json()\<close>, the nested
  lookup and \<^verbatim>\<open>.strip()\<close>.
\<close>

definition gemini_call :: "provider \<Rightarrow> json \<Rightarrow> string \<Rightarrow> world \<Rightarrow> (py_exn + string) \<times> world" where
  "gemini_call env message system_prompt w =
     (let u = GEMINI_API_URL (globals w);
          (response, w1) = requests_post env u [] (gemini_payload message system_prompt) w
      in (and_then response (\<lambda>r.
          and_then (raise_for_status u r) (\<lambda>r.
          and_then (gemini_text (json_body r)) py_strip)), w1))"

text \<open>
  The \<^verbatim>\<open>except\<close> clauses of \<open>get_sentiment_route\<close>, the same in both files:
  \<^verbatim>\<open>HTTPError\<close>, then \<^verbatim>\<open>(KeyError, IndexError)\<close>, then \<^verbatim>\<open>RequestException\<close>.
  Any other exception escapes.
\<close>

definition sentiment_except :: "py_exn \<Rightarrow> world \<Rightarrow> handled" where
  "sentiment_except e w =
     (case e of
        HTTPError m r \<Rightarrow>
          (Inr (Response (status_code r)
                  (JObj [(''error'', JStr (''API request failed with status '' @ str_nat (status_code r)))])),
           py_print ''HTTP Error calling Gemini API: '' w)
      | KeyError m \<Rightarrow>
          (Inr (Response 500 (JObj [(''error'', JStr ''Invalid response structure from sentiment service'')])),
           py_print ''Error parsing Gemini API response: '' w)
      | IndexError m \<Rightarrow>
          (Inr (Response 500 (JObj [(''error'', JStr ''Invalid response structure from sentiment service'')])),
           py_print ''Error parsing Gemini API response: '' w)
      | ConnectionError m \<Rightarrow>
          (Inr (Response 500 (JObj [(''error'', JStr ''Failed to connect to the sentiment analysis service'')])),
           py_print ''Network error calling Gemini API: '' w)
      | _ \<Rightarrow> (Inl e, w))"

text \<open>The \<^verbatim>\<open>try\<close> statement of \<open>get_sentiment_route\<close>.\<close>

definition sentiment_try :: "provider \<Rightarrow> json \<Rightarrow> string \<Rightarrow> world \<Rightarrow> handled" where
  "sentiment_try env message system_prompt w =
     (let (stripped, w1) = gemini_call env message system_prompt w
      in (case stripped of
            Inl e \<Rightarrow> sentiment_except e w1
          | Inr text \<Rightarrow> (Inr (Response 200 (JObj [(''sentiment'', JStr (str_lower text))])), w1)))"

text \<open>\<open>get_sentiment_route\<close> of \<^verbatim>\<open>app.py\<close>.\<close>

definition app_get_sentiment_route :: "provider \<Rightarrow> json \<Rightarrow> world \<Rightarrow> handled" where
  "app_get_sentiment_route env request_json w =
     (if no_key (GEMINI_API_KEY (globals w)) then
        let w1 = py_print ''Warning: GEMINI_API_KEY not found. Returning a mock sentiment.'' w
        in (case and_then (py_get request_json ''message'' (JStr [])) py_lower of
              Inl e \<Rightarrow> (Inl e, w1)
            | Inr mock_message \<Rightarrow>
                (Inr (Response 200
                   (JObj [(''sentiment'',
                           JStr (if str_contains ''good'' mock_message \<or> str_contains ''great'' mock_message
                                 then ''happy'' else ''sad''))])),
                 w1))
      else
        (case (if \<not> py_truthy request_json then Inr True
               else and_then (py_in ''message'' request_json) (\<lambda>b. Inr (\<not> b))) of
           Inl e \<Rightarrow> (Inl e, w)
         | Inr True \<Rightarrow>
             (Inr (Response 400 (JObj [(''error'', JStr ''Message is required in the request body'')])), w)
         | Inr False \<Rightarrow>
             (case getitem_str request_json ''message'' of
                Inl e \<Rightarrow> (Inl e, w)
              | Inr user_message \<Rightarrow> sentiment_try env user_message (SYSTEM_PROMPT (globals w)) w)))"

text \<open>The local \<open>system_prompt\<close> of each route of \<^verbatim>\<open>app1.py\<close>.\<close>

definition sentiment_system_prompt :: string where
  \<open>sentiment_system_prompt =
     ''You are a highly specialized sentiment analysis model. Your only function is to analyze the following text and classify its dominant emotion as either "happy" or "sad". Your response MUST be a single word, with no extra formatting, punctuation, or explanation. The only valid responses are the literal strings "happy" or "sad".''\<close>

definition chat_system_prompt :: string where
  "chat_system_prompt =
     ''You are a friendly and supportive AI assistant. Keep your responses concise and encouraging.''"

text \<open>\<open>get_sentiment_route\<close> of \<^verbatim>\<open>app1.py\<close>.\<close>

definition app1_get_sentiment_route :: "provider \<Rightarrow> json \<Rightarrow> world \<Rightarrow> handled" where
  "app1_get_sentiment_route env request_json w =
     (if no_key (GEMINI_API_KEY (globals w)) then
        let w1 = py_print ''Warning: API key not found. Returning a mock sentiment.'' w
        in (case and_then (py_get request_json ''message'' (JStr [])) py_lower of
              Inl e \<Rightarrow> (Inl e, w1)
            | Inr lowered \<Rightarrow>
                (Inr (Response 200
                   (JObj [(''sentiment'', JStr (if str_contains ''good'' lowered then ''happy'' else ''sad''))])),
                 w1))
      else
        (case py_get request_json ''message'' JNull of
           Inl e \<Rightarrow> (Inl e, w)
         | Inr message \<Rightarrow>
             if \<not> py_truthy message then
               (Inr (Response 400 (JObj [(''error'', JStr ''Message is required'')])), w)
             else sentiment_try env message sentiment_system_prompt w))"

text \<open>\<open>continue_chat_route\<close> of \<^verbatim>\<open>app1.py\<close>, first its \<^verbatim>\<open>except\<close> clauses.\<close>

definition chat_except :: "py_exn \<Rightarrow> world \<Rightarrow> handled" where
  "chat_except e w =
     (case e of
        HTTPError m r \<Rightarrow>
          (Inr (Response (status_code r) (JObj [(''error'', JStr ''The chat service is currently unavailable.'')])),
           py_print ''HTTP Error in chat: '' w)
      | _ \<Rightarrow>
          (Inr (Response 500 (JObj [(''error'', JStr ''An unexpected error occurred.'')])),
           py_print ''An unexpected error occurred in chat: '' w))"

definition continue_chat_route :: "provider \<Rightarrow> json \<Rightarrow> world \<Rightarrow> handled" where
  "continue_chat_route env request_json w =
     (if no_key (GEMINI_API_KEY (globals w)) then
        (Inr (Response 200
           (JObj [(''response'', JStr ''I'm in offline mode right now, but we can chat more later!'')])), w)
      else
        (case py_get request_json ''message'' JNull of
           Inl e \<Rightarrow> (Inl e, w)
         | Inr message \<Rightarrow>
             if \<not> py_truthy message then
               (Inr (Response 400 (JObj [(''error'', JStr ''Message is required'')])), w)
             else
               let (stripped, w1) = gemini_call env message chat_system_prompt w
               in (case stripped of
                     Inl e \<Rightarrow> chat_except e w1
                   | Inr ai_response \<Rightarrow> (Inr (Response 200 (JObj [(''response'', JStr ai_response)])), w1))))"

section \<open>The modules as loaded\<close>

text \<open>
  The globals each file computes when it is imported, for the value \<open>key\<close> that
  \<^verbatim>\<open>os.getenv("GEMINI_API_KEY")\<close> gives; nothing is printed or sent yet.
\<close>

definition app_SYSTEM_PROMPT :: string where
  \<open>app_SYSTEM_PROMPT =
     [CHR 0x0A] @
     ''You are a highly specialized sentiment analysis model. Your only function is to analyze the following text and classify its dominant emotion as either "happy" or "sad".'' @
     [CHR 0x0A, CHR 0x0A] @
     ''Your response MUST be a single word, with no extra formatting, punctuation, or explanation. The only valid responses are the literal strings "happy" or "sad".'' @
     [CHR 0x0A]\<close>

definition main_module :: "string option \<Rightarrow> world" where
  "main_module key =
     \<lparr>globals = \<lparr>GEMINI_API_KEY = key, GEMINI_API_URL = [],
                  GEMINI_ENDPOINT = ''https://api.gemini-pro.ai/v1/chat/completions'',
                  SYSTEM_PROMPT = []\<rparr>,
      stdout = [], sent = []\<rparr>"

definition app_module :: "string option \<Rightarrow> world" where
  "app_module key =
     \<lparr>globals = \<lparr>GEMINI_API_KEY = key,
                  GEMINI_API_URL =
                    ''https://generativelanguage.googleapis.com/v1beta/models/gemini-2.0-flash:generateContent?key=''
                    @ str_key key,
                  GEMINI_ENDPOINT = [],
                  SYSTEM_PROMPT = app_SYSTEM_PROMPT\<rparr>,
      stdout = [], sent = []\<rparr>"

definition app1_module :: "string option \<Rightarrow> world" where
  "app1_module key =
     \<lparr>globals = \<lparr>GEMINI_API_KEY = key,
                  GEMINI_API_URL =
                    ''https://generativelanguage.googleapis.com/v1beta/models/gemini-2.5-flash:generateContent?key=''
                    @ str_key key,
                  GEMINI_ENDPOINT = [],
                  SYSTEM_PROMPT = []\<rparr>,
      stdout = [], sent = []\<rparr>"

section \<open>Sample requests and replies\<close>

text \<open>The request body \<^verbatim>\<open>{"message": text}\<close>.\<close>

definition message_request :: "string \<Rightarrow> json" where
  "message_request text = JObj [(''message'', JStr text)]"

text \<open>A reply with status 200 and the given body.\<close>

definition ok_reply :: "json \<Rightarrow> reply" where
  "ok_reply b = \<lparr>status_code = 200, reason = ''OK'', json_body = b\<rparr>"

text \<open>The body \<^verbatim>\<open>{"candidates":[{"content":{"parts":[{"text": text}]}}]}\<close>.\<close>

definition candidates_body :: "string \<Rightarrow> json" where
  "candidates_body text =
     JObj [(''candidates'', JArr [JObj [(''content'', JObj [(''parts'', JArr [JObj [(''text'', JStr text)]])])]])]"

text \<open>The body \<^verbatim>\<open>{"choices":[{"message":{"content": text}}]}\<close>.\<close>

definition choices_body :: "string \<Rightarrow> json" where
  "choices_body text =
     JObj [(''choices'', JArr [JObj [(''message'', JObj [(''content'', JStr text)])]])]"

section \<open>The effects a handler may have\<close>


section \<open>Facts about the building blocks\<close>

lemma dropWhile_all_iff: "(\<forall>x\<in>set (dropWhile P xs). P x) \<longleftrightarrow> (\<forall>x\<in>set xs. P x)"
  by (induction xs) auto

lemma str_strip_empty_iff: "str_strip t = [] \<longleftrightarrow> list_all isspace t"
  by (simp add: str_strip_def dropWhile_eq_Nil_conv dropWhile_all_iff list_all_iff)

text \<open>The two methods beyond ASCII: no-break space, next line, and the Latin-1 capitals.\<close>

lemma latin1_text:
  "str_lower (str_strip (CHR 0xA0 # ''sad'' @ [CHR 0xA0])) = ''sad''
   \<and> str_strip [CHR 0xA0] = []
   \<and> str_strip [CHR 0x85] = []
   \<and> str_lower (''TR'' @ [CHR 0xC8] @ ''S'') = ''tr'' @ [CHR 0xE8] @ ''s''
   \<and> str_lower [CHR 0xD7] = [CHR 0xD7]"
  by (simp add: str_lower_def str_strip_def isspace_def lower_char_def upper_chars_def lower_chars_def)

lemma gemini_text_candidates_body: "gemini_text (candidates_body t) = Inr (JStr t)"
  by (simp add: gemini_text_def candidates_body_def and_then_def)


lemma snd_gemini_call:
  "snd (gemini_call env m sp w) =
     w\<lparr>sent := sent w @ [\<lparr>url = GEMINI_API_URL (globals w), headers = [], payload = gemini_payload m sp\<rparr>]\<rparr>"
  by (simp add: gemini_call_def requests_post_def Let_def)

lemma fst_gemini_call_ok:
  "\<not> (400 \<le> status_code r \<and> status_code r < 600) \<Longrightarrow>
   fst (gemini_call (Replies r) m sp w) = and_then (gemini_text (json_body r)) py_strip"
  by (auto simp add: gemini_call_def requests_post_def raise_for_status_def and_then_def Let_def)

lemma fst_gemini_call_rejected:
  "400 \<le> status_code r \<Longrightarrow> status_code r < 600 \<Longrightarrow>
   \<exists>msg. fst (gemini_call (Replies r) m sp w) = Inl (HTTPError msg r)"
  by (auto simp add: gemini_call_def requests_post_def raise_for_status_def and_then_def Let_def)

lemma fst_gemini_call_unreachable:
  "fst (gemini_call (Unreachable msg) m sp w) = Inl (ConnectionError msg)"
  by (simp add: gemini_call_def requests_post_def and_then_def Let_def)

lemma sentiment_try_eq:
  "sentiment_try env m sp w =
     (case fst (gemini_call env m sp w) of
        Inl e \<Rightarrow> sentiment_except e (snd (gemini_call env m sp w))
      | Inr text \<Rightarrow>
          (Inr (Response 200 (JObj [(''sentiment'', JStr (str_lower text))])), snd (gemini_call env m sp w)))"
  by (simp add: sentiment_try_def split_beta)

lemma app_online:
  "\<not> no_key (GEMINI_API_KEY (globals w)) \<Longrightarrow> map_of kvs ''message'' = Some m \<Longrightarrow>
   app_get_sentiment_route env (JObj kvs) w = sentiment_try env m (SYSTEM_PROMPT (globals w)) w"
  by (auto simp add: app_get_sentiment_route_def and_then_def)

lemma app1_online:
  "\<not> no_key (GEMINI_API_KEY (globals w)) \<Longrightarrow> map_of kvs ''message'' = Some m \<Longrightarrow> py_truthy m \<Longrightarrow>
   app1_get_sentiment_route env (JObj kvs) w = sentiment_try env m sentiment_system_prompt w"
  by (simp add: app1_get_sentiment_route_def)

lemma sentiment_try_text:
  "\<not> (400 \<le> status_code r \<and> status_code r < 600) \<Longrightarrow> gemini_text (json_body r) = Inr (JStr t) \<Longrightarrow>
   fst (sentiment_try (Replies r) m sp w) =
     Inr (Response 200 (JObj [(''sentiment'', JStr (str_lower (str_strip t)))]))"
  by (simp add: sentiment_try_eq fst_gemini_call_ok and_then_def)

lemma main_online:
  "map_of kvs ''message'' = Some m \<Longrightarrow> py_truthy m \<Longrightarrow>
   fst (main_get_sentiment (Replies r) (JObj kvs) w) =
     (case and_then (main_content (json_body r)) (\<lambda>content.
           and_then (py_strip content) (\<lambda>stripped. Inr (str_lower stripped))) of
        Inl e \<Rightarrow> Inr (main_except e)
      | Inr sentiment \<Rightarrow>
          Inr (Response 200
                 (JObj [(''sentiment'',
                         JStr (if sentiment \<notin> set [''happy'', ''sad''] then ''happy'' else sentiment))])))"
  by (simp add: main_get_sentiment_def requests_post_def and_then_def split: sum.splits)

lemma sentiment_try_rejected:
  "400 \<le> status_code r \<Longrightarrow> status_code r < 600 \<Longrightarrow>
   fst (sentiment_try (Replies r) m sp w) =
     Inr (Response (status_code r)
            (JObj [(''error'', JStr (''API request failed with status '' @ str_nat (status_code r)))]))"
  using fst_gemini_call_rejected [of r m sp w]
  by (auto simp add: sentiment_try_eq sentiment_except_def)

lemma sentiment_try_unreachable:
  "fst (sentiment_try (Unreachable msg) m sp w) =
     Inr (Response 500 (JObj [(''error'', JStr ''Failed to connect to the sentiment analysis service'')]))"
  by (simp add: sentiment_try_eq fst_gemini_call_unreachable sentiment_except_def)

lemma main_unreachable:
  "map_of kvs ''message'' = Some m \<Longrightarrow> py_truthy m \<Longrightarrow>
   fst (main_get_sentiment (Unreachable msg) (JObj kvs) w) =
     Inr (Response 500 (JObj [(''error'', JStr msg), (''sentiment'', JStr ''happy'')]))"
  by (simp add: main_get_sentiment_def requests_post_def and_then_def main_except_def)

lemma main_ignores_status:
  "fst (main_get_sentiment (Replies (r\<lparr>status_code := s\<rparr>)) data w) = fst (main_get_sentiment (Replies r) data w)"
  by (simp add: main_get_sentiment_def requests_post_def and_then_def split: sum.splits)

lemma sent_sentiment_except: "sent (snd (sentiment_except e w)) = sent w"
  by (cases e) (simp_all add: sentiment_except_def py_print_def)

lemma app_call_made:
  "sent (snd (app_get_sentiment_route env req w)) \<noteq> sent w \<Longrightarrow>
   \<exists>m. app_get_sentiment_route env req w = sentiment_try env m (SYSTEM_PROMPT (globals w)) w"
  by (auto simp add: app_get_sentiment_route_def py_print_def Let_def split: if_splits sum.splits bool.splits)

lemma app1_call_made:
  "sent (snd (app1_get_sentiment_route env req w)) \<noteq> sent w \<Longrightarrow>
   \<exists>m. app1_get_sentiment_route env req w = sentiment_try env m sentiment_system_prompt w"
  by (auto simp add: app1_get_sentiment_route_def py_print_def Let_def split: if_splits sum.splits)

lemma main_call_made:
  "sent (snd (main_get_sentiment env req w)) \<noteq> sent w \<Longrightarrow>
   \<exists>kvs m. req = JObj kvs \<and> map_of kvs ''message'' = Some m \<and> py_truthy m"
  by (cases req) (auto simp add: main_get_sentiment_def split: if_splits sum.splits option.splits)

lemma main_never_raises: "\<exists>resp. fst (main_get_sentiment env req w) = Inr resp"
  by (simp add: main_get_sentiment_def split_beta split: sum.splits)

lemma chat_online:
  "\<not> no_key (GEMINI_API_KEY (globals w)) \<Longrightarrow> map_of kvs ''message'' = Some m \<Longrightarrow> py_truthy m \<Longrightarrow>
   continue_chat_route env (JObj kvs) w =
     (case fst (gemini_call env m chat_system_prompt w) of
        Inl e \<Rightarrow> chat_except e (snd (gemini_call env m chat_system_prompt w))
      | Inr ai_response \<Rightarrow>
          (Inr (Response 200 (JObj [(''response'', JStr ai_response)])), snd (gemini_call env m chat_system_prompt w)))"
  by (simp add: continue_chat_route_def split_beta)

lemma chat_except_not_http:
  "(\<And>msg r. e \<noteq> HTTPError msg r) \<Longrightarrow>
   fst (chat_except e w) = Inr (Response 500 (JObj [(''error'', JStr ''An unexpected error occurred.'')]))"
  by (cases e) (auto simp add: chat_except_def)

lemma getitem_str_not_http: "getitem_str v k \<noteq> Inl (HTTPError msg r)"
  by (cases v) (simp_all add: not_subscriptable_def split: option.splits)

lemma getitem_0_not_http: "getitem_0 v \<noteq> Inl (HTTPError msg r)"
  by (cases v rule: getitem_0.cases) (simp_all add: not_subscriptable_def)

lemma py_strip_not_http: "py_strip v \<noteq> Inl (HTTPError msg r)"
  by (cases v) (simp_all add: no_attribute_def)

lemma gemini_text_strip_not_http: "and_then (gemini_text body) py_strip \<noteq> Inl (HTTPError msg r)"
  by (auto simp add: gemini_text_def and_then_def getitem_str_not_http getitem_0_not_http py_strip_not_http
        split: sum.splits)


lemma chat_malformed:
  assumes "\<not> no_key (GEMINI_API_KEY (globals w))" "map_of kvs ''message'' = Some m" "py_truthy m"
    "\<not> (400 \<le> status_code r \<and> status_code r < 600)"
    "and_then (gemini_text (json_body r)) py_strip = Inl e"
  shows "fst (continue_chat_route (Replies r) (JObj kvs) w) =
           Inr (Response 500 (JObj [(''error'', JStr ''An unexpected error occurred.'')]))"
proof -
  have "\<And>msg r'. e \<noteq> HTTPError msg r'"
    using gemini_text_strip_not_http [of "json_body r"] assms(5) by auto
  then show ?thesis
    using assms by (simp add: chat_online fst_gemini_call_ok chat_except_not_http)
qed

lemma sentiment_try_missing:
  assumes "\<not> (400 \<le> status_code r \<and> status_code r < 600)"
    "gemini_text (json_body r) = Inl (KeyError k) \<or> gemini_text (json_body r) = Inl (IndexError k)"
  shows "fst (sentiment_try (Replies r) m sp w) =
           Inr (Response 500 (JObj [(''error'', JStr ''Invalid response structure from sentiment service'')]))"
  using assms by (auto simp add: sentiment_try_eq fst_gemini_call_ok and_then_def sentiment_except_def)

lemma chat_text:
  assumes "\<not> no_key (GEMINI_API_KEY (globals w))" "map_of kvs ''message'' = Some m" "py_truthy m"
    "\<not> (400 \<le> status_code r \<and> status_code r < 600)" "gemini_text (json_body r) = Inr (JStr t)"
  shows "fst (continue_chat_route (Replies r) (JObj kvs) w) =
           Inr (Response 200 (JObj [(''response'', JStr (str_strip t))]))"
  using assms by (simp add: chat_online fst_gemini_call_ok and_then_def)

lemma py_strip_Inr: "py_strip v = Inr s \<Longrightarrow> \<exists>t. v = JStr t \<and> s = str_strip t"
  by (cases v) auto

lemma chat_success:
  assumes online: "\<not> no_key (GEMINI_API_KEY (globals w))"
    and ok: "fst (continue_chat_route env req w) = Inr (Response 200 b)"
  shows "\<exists>r t. env = Replies r \<and> gemini_text (json_body r) = Inr (JStr t)
               \<and> b = JObj [(''response'', JStr (str_strip t))]"
proof -
  obtain kvs m where req: "req = JObj kvs" "py_get req ''message'' JNull = Inr m" "py_truthy m"
    using online ok by (cases req) (auto simp add: continue_chat_route_def split: if_splits)
  have route: "continue_chat_route env req w =
     (case fst (gemini_call env m chat_system_prompt w) of
        Inl e \<Rightarrow> chat_except e (snd (gemini_call env m chat_system_prompt w))
      | Inr ai_response \<Rightarrow>
          (Inr (Response 200 (JObj [(''response'', JStr ai_response)])), snd (gemini_call env m chat_system_prompt w)))"
    using online req by (simp add: continue_chat_route_def split_beta)
  show ?thesis
  proof (cases env)
    case (Unreachable msg)
    then show ?thesis
      using ok route by (simp add: fst_gemini_call_unreachable chat_except_def)
  next
    case (Replies r)
    show ?thesis
    proof (cases "400 \<le> status_code r \<and> status_code r < 600")
      case True
      then obtain msg where "fst (gemini_call (Replies r) m chat_system_prompt w) = Inl (HTTPError msg r)"
        using fst_gemini_call_rejected [of r m chat_system_prompt w] by auto
      then show ?thesis
        using ok route Replies True by (auto simp add: chat_except_def)
    next
      case False
      then have call: "fst (gemini_call env m chat_system_prompt w) = and_then (gemini_text (json_body r)) py_strip"
        using Replies by (simp add: fst_gemini_call_ok)
      show ?thesis
      proof (cases "and_then (gemini_text (json_body r)) py_strip")
        case (Inl e)
        then have "\<And>msg r'. e \<noteq> HTTPError msg r'"
          using gemini_text_strip_not_http [of "json_body r"] by auto
        then show ?thesis
          using ok route call Inl by (simp add: chat_except_not_http)
      next
        case (Inr s)
        then obtain v where v: "gemini_text (json_body r) = Inr v" "py_strip v = Inr s"
          by (auto simp add: and_then_def split: sum.splits)
        then obtain t where "v = JStr t" "s = str_strip t"
          using py_strip_Inr by blast
        then show ?thesis
          using ok route call Inr v Replies by simp
      qed
    qed
  qed
qed











text \<open>The definitions a closed instance is evaluated with.\<close>

lemmas eval_defs = message_request_def ok_reply_def candidates_body_def choices_body_def
  app_module_def app1_module_def main_module_def no_key_def str_key_def
  str_lower_def str_strip_def isspace_def lower_char_def upper_chars_def lower_chars_def and_then_def
  gemini_text_def main_content_def

section \<open>C1: the label returned by classify\<close>

text \<open>
  C1, as the code has it. In \<^verbatim>\<open>main.py\<close>, for a request whose message is truthy, whenever
  the reply body yields a string at \<open>choices[0].message.content\<close> (missing levels replaced
  by the defaults), \<open>get_sentiment\<close> answers 200 with a sentiment that is exactly
  \<open>happy\<close> or \<open>sad\<close>: \<open>sad\<close> when the trimmed, lower-cased text is \<open>sad\<close>, and
  \<open>happy\<close> otherwise (the text \<open>happy\<close> itself, or the default). In \<^verbatim>\<open>app.py\<close> and
  \<^verbatim>\<open>app1.py\<close> there is no fallback: with a key configured, when the reply is not a 4xx
  or 5xx and yields a string at \<open>candidates[0].content.parts[0].text\<close>, the sentiment
  returned is that text trimmed and lower-cased, whatever it is.
\<close>

theorem C1_labels:
  "(map_of kvs ''message'' = Some m \<and> py_truthy m \<and> main_content (json_body r) = Inr (JStr t) \<longrightarrow>
      fst (main_get_sentiment (Replies r) (JObj kvs) w) =
        Inr (Response 200
               (JObj [(''sentiment'', JStr (if str_lower (str_strip t) = ''sad'' then ''sad'' else ''happy''))])))
   \<and> (\<not> no_key (GEMINI_API_KEY (globals w)) \<and> map_of kvs ''message'' = Some m \<and>
        \<not> (400 \<le> status_code r \<and> status_code r < 600) \<and> gemini_text (json_body r) = Inr (JStr t) \<longrightarrow>
      fst (app_get_sentiment_route (Replies r) (JObj kvs) w) =
        Inr (Response 200 (JObj [(''sentiment'', JStr (str_lower (str_strip t)))])))
   \<and> (\<not> no_key (GEMINI_API_KEY (globals w)) \<and> map_of kvs ''message'' = Some m \<and> py_truthy m \<and>
        \<not> (400 \<le> status_code r \<and> status_code r < 600) \<and> gemini_text (json_body r) = Inr (JStr t) \<longrightarrow>
      fst (app1_get_sentiment_route (Replies r) (JObj kvs) w) =
        Inr (Response 200 (JObj [(''sentiment'', JStr (str_lower (str_strip t)))])))"
proof (intro conjI impI)
  assume "map_of kvs ''message'' = Some m \<and> py_truthy m \<and> main_content (json_body r) = Inr (JStr t)"
  then show "fst (main_get_sentiment (Replies r) (JObj kvs) w) =
        Inr (Response 200
               (JObj [(''sentiment'', JStr (if str_lower (str_strip t) = ''sad'' then ''sad'' else ''happy''))]))"
    by (simp add: main_online and_then_def)
next
  assume "\<not> no_key (GEMINI_API_KEY (globals w)) \<and> map_of kvs ''message'' = Some m \<and>
        \<not> (400 \<le> status_code r \<and> status_code r < 600) \<and> gemini_text (json_body r) = Inr (JStr t)"
  then show "fst (app_get_sentiment_route (Replies r) (JObj kvs) w) =
        Inr (Response 200 (JObj [(''sentiment'', JStr (str_lower (str_strip t)))]))"
    by (simp add: app_online sentiment_try_text)
next
  assume "\<not> no_key (GEMINI_API_KEY (globals w)) \<and> map_of kvs ''message'' = Some m \<and> py_truthy m \<and>
        \<not> (400 \<le> status_code r \<and> status_code r < 600) \<and> gemini_text (json_body r) = Inr (JStr t)"
  then show "fst (app1_get_sentiment_route (Replies r) (JObj kvs) w) =
        Inr (Response 200 (JObj [(''sentiment'', JStr (str_lower (str_strip t)))]))"
    by (simp add: app1_online sentiment_try_text)
qed

text \<open>
  Instances: \<^verbatim>\<open>main.py\<close> turns \<open>" Neutral "\<close> into the default and keeps \<open>" SAD "\<close> as
  \<open>sad\<close>; \<^verbatim>\<open>app.py\<close> and \<^verbatim>\<open>app1.py\<close> return the normalised text. The last two have
  a no-break space before \<open>Sad\<close> (trimmed) and a Latin-1 capital in the text (lowered).
\<close>

theorem C1_labels_witness:
  "fst (main_get_sentiment (Replies (ok_reply (choices_body '' Neutral ''))) (message_request ''I am fine'')
          (main_module (Some ''secret'')))
     = Inr (Response 200 (JObj [(''sentiment'', JStr ''happy'')]))
   \<and> fst (main_get_sentiment (Replies (ok_reply (choices_body '' SAD ''))) (message_request ''I am fine'')
          (main_module (Some ''secret'')))
     = Inr (Response 200 (JObj [(''sentiment'', JStr ''sad'')]))
   \<and> fst (app_get_sentiment_route (Replies (ok_reply (candidates_body '' SAD ''))) (message_request ''I am fine'')
          (app_module (Some ''secret'')))
     = Inr (Response 200 (JObj [(''sentiment'', JStr ''sad'')]))
   \<and> fst (app1_get_sentiment_route (Replies (ok_reply (candidates_body ''Neutral''))) (message_request ''I am fine'')
          (app1_module (Some ''secret'')))
     = Inr (Response 200 (JObj [(''sentiment'', JStr ''neutral'')]))
   \<and> fst (main_get_sentiment (Replies (ok_reply (choices_body (CHR 0xA0 # ''Sad'')))) (message_request ''I am fine'')
          (main_module (Some ''secret'')))
     = Inr (Response 200 (JObj [(''sentiment'', JStr ''sad'')]))
   \<and> fst (app_get_sentiment_route (Replies (ok_reply (candidates_body (''TR'' @ [CHR 0xC8] @ ''S''))))
          (message_request ''I am fine'') (app_module (Some ''secret'')))
     = Inr (Response 200 (JObj [(''sentiment'', JStr (''tr'' @ [CHR 0xE8] @ ''s''))]))"
  using
    C1_labels [of "[(''message'', JStr ''I am fine'')]" "JStr ''I am fine''"
                  "ok_reply (choices_body (CHR 0xA0 # ''Sad''))" "CHR 0xA0 # ''Sad''" "main_module (Some ''secret'')"]
    C1_labels [of "[(''message'', JStr ''I am fine'')]" "JStr ''I am fine''"
                  "ok_reply (candidates_body (''TR'' @ [CHR 0xC8] @ ''S''))" "''TR'' @ [CHR 0xC8] @ ''S''"
                  "app_module (Some ''secret'')"]
    C1_labels [of "[(''message'', JStr ''I am fine'')]" "JStr ''I am fine''" "ok_reply (choices_body '' Neutral '')"
                  "'' Neutral ''" "main_module (Some ''secret'')"]
    C1_labels [of "[(''message'', JStr ''I am fine'')]" "JStr ''I am fine''" "ok_reply (choices_body '' SAD '')"
                  "'' SAD ''" "main_module (Some ''secret'')"]
    C1_labels [of "[(''message'', JStr ''I am fine'')]" "JStr ''I am fine''" "ok_reply (candidates_body '' SAD '')"
                  "'' SAD ''" "app_module (Some ''secret'')"]
    C1_labels [of "[(''message'', JStr ''I am fine'')]" "JStr ''I am fine''" "ok_reply (candidates_body ''Neutral'')"
                  "''Neutral''" "app1_module (Some ''secret'')"]
  by (simp add: eval_defs)

text \<open>
  The claim as worded fails in \<^verbatim>\<open>app.py\<close>: for the message \<open>I am fine\<close> and the reply
  text \<open>Neutral\<close>, the sentiment returned is \<open>neutral\<close>.
\<close>

theorem C1_counterexample:
  "fst (app_get_sentiment_route (Replies (ok_reply (candidates_body ''Neutral'')))
          (message_request ''I am fine'') (app_module (Some ''secret'')))
     = Inr (Response 200 (JObj [(''sentiment'', JStr ''neutral'')]))"
  by (simp add: message_request_def app_online app_module_def no_key_def sentiment_try_text ok_reply_def
        gemini_text_candidates_body str_lower_def str_strip_def isspace_def lower_char_def upper_chars_def lower_chars_def)

section \<open>C2: requests without a message\<close>

text \<open>
  C2, as the code has it. For a JSON-object request whose message is missing or the empty
  string: \<open>get_sentiment\<close> of \<^verbatim>\<open>main.py\<close> answers 400 and leaves the world as it was
  (no call to the provider), whatever the key; with a key configured, both routes of
  \<^verbatim>\<open>app1.py\<close> do the same, and \<^verbatim>\<open>app.py\<close> does so when the message field is missing.
  Without a key (offline mode), \<^verbatim>\<open>app.py\<close> and \<^verbatim>\<open>app1.py\<close> answer 200 with the mock
  sentiment \<open>sad\<close>, and the chat route answers 200 with its placeholder; none of them calls
  the provider.
\<close>

theorem C2_invalid_request:
  assumes "map_of kvs ''message'' = None \<or> map_of kvs ''message'' = Some (JStr [])"
  shows
    "main_get_sentiment env (JObj kvs) w =
       (Inr (Response 400 (JObj [(''error'', JStr ''No message provided'')])), w)
     \<and> (\<not> no_key (GEMINI_API_KEY (globals w)) \<longrightarrow>
          app1_get_sentiment_route env (JObj kvs) w =
            (Inr (Response 400 (JObj [(''error'', JStr ''Message is required'')])), w)
          \<and> continue_chat_route env (JObj kvs) w =
            (Inr (Response 400 (JObj [(''error'', JStr ''Message is required'')])), w))
     \<and> (\<not> no_key (GEMINI_API_KEY (globals w)) \<and> map_of kvs ''message'' = None \<longrightarrow>
          app_get_sentiment_route env (JObj kvs) w =
            (Inr (Response 400 (JObj [(''error'', JStr ''Message is required in the request body'')])), w))
     \<and> (no_key (GEMINI_API_KEY (globals w)) \<longrightarrow>
          fst (app_get_sentiment_route env (JObj kvs) w) = Inr (Response 200 (JObj [(''sentiment'', JStr ''sad'')]))
          \<and> sent (snd (app_get_sentiment_route env (JObj kvs) w)) = sent w
          \<and> fst (app1_get_sentiment_route env (JObj kvs) w) = Inr (Response 200 (JObj [(''sentiment'', JStr ''sad'')]))
          \<and> sent (snd (app1_get_sentiment_route env (JObj kvs) w)) = sent w
          \<and> continue_chat_route env (JObj kvs) w =
              (Inr (Response 200
                 (JObj [(''response'', JStr ''I'm in offline mode right now, but we can chat more later!'')])), w))"
proof -
  have main: "main_get_sentiment env (JObj kvs) w =
       (Inr (Response 400 (JObj [(''error'', JStr ''No message provided'')])), w)"
    using assms by (auto simp add: main_get_sentiment_def)
  have online1: "app1_get_sentiment_route env (JObj kvs) w =
            (Inr (Response 400 (JObj [(''error'', JStr ''Message is required'')])), w)
          \<and> continue_chat_route env (JObj kvs) w =
            (Inr (Response 400 (JObj [(''error'', JStr ''Message is required'')])), w)"
    if "\<not> no_key (GEMINI_API_KEY (globals w))"
    using assms that by (auto simp add: app1_get_sentiment_route_def continue_chat_route_def)
  have online: "app_get_sentiment_route env (JObj kvs) w =
            (Inr (Response 400 (JObj [(''error'', JStr ''Message is required in the request body'')])), w)"
    if "\<not> no_key (GEMINI_API_KEY (globals w))" "map_of kvs ''message'' = None"
    using that by (auto simp add: app_get_sentiment_route_def and_then_def)
  have lowered: "and_then (py_get (JObj kvs) ''message'' (JStr [])) py_lower = Inr []"
    using assms by (auto simp add: and_then_def str_lower_def)
  have offline: "fst (app_get_sentiment_route env (JObj kvs) w) = Inr (Response 200 (JObj [(''sentiment'', JStr ''sad'')]))
          \<and> sent (snd (app_get_sentiment_route env (JObj kvs) w)) = sent w
          \<and> fst (app1_get_sentiment_route env (JObj kvs) w) = Inr (Response 200 (JObj [(''sentiment'', JStr ''sad'')]))
          \<and> sent (snd (app1_get_sentiment_route env (JObj kvs) w)) = sent w
          \<and> continue_chat_route env (JObj kvs) w =
              (Inr (Response 200
                 (JObj [(''response'', JStr ''I'm in offline mode right now, but we can chat more later!'')])), w)"
    if "no_key (GEMINI_API_KEY (globals w))"
    using that lowered
    by (simp add: app_get_sentiment_route_def app1_get_sentiment_route_def continue_chat_route_def
          py_print_def Let_def)
  from main online1 online offline show ?thesis by blast
qed

text \<open>
  Instances: the empty message in \<^verbatim>\<open>main.py\<close> and in both routes of \<^verbatim>\<open>app1.py\<close>, the
  body \<open>{}\<close> in \<^verbatim>\<open>app.py\<close>, and the empty message in \<^verbatim>\<open>app1.py\<close> without a key.
\<close>

theorem C2_invalid_request_witness:
  "main_get_sentiment (Replies (ok_reply (choices_body ''happy''))) (message_request []) (main_module (Some ''secret''))
     = (Inr (Response 400 (JObj [(''error'', JStr ''No message provided'')])), main_module (Some ''secret''))
   \<and> app1_get_sentiment_route (Replies (ok_reply (candidates_body ''happy''))) (message_request [])
         (app1_module (Some ''secret''))
     = (Inr (Response 400 (JObj [(''error'', JStr ''Message is required'')])), app1_module (Some ''secret''))
   \<and> continue_chat_route (Replies (ok_reply (candidates_body ''happy''))) (message_request [])
         (app1_module (Some ''secret''))
     = (Inr (Response 400 (JObj [(''error'', JStr ''Message is required'')])), app1_module (Some ''secret''))
   \<and> app_get_sentiment_route (Replies (ok_reply (candidates_body ''happy''))) (JObj [])
         (app_module (Some ''secret''))
     = (Inr (Response 400 (JObj [(''error'', JStr ''Message is required in the request body'')])),
        app_module (Some ''secret''))
   \<and> fst (app1_get_sentiment_route (Replies (ok_reply (candidates_body ''happy''))) (message_request [])
         (app1_module None))
     = Inr (Response 200 (JObj [(''sentiment'', JStr ''sad'')]))
   \<and> sent (snd (app1_get_sentiment_route (Replies (ok_reply (candidates_body ''happy''))) (message_request [])
         (app1_module None))) = []"
  using
    C2_invalid_request [of "[(''message'', JStr [])]" "Replies (ok_reply (choices_body ''happy''))"
                           "main_module (Some ''secret'')"]
    C2_invalid_request [of "[(''message'', JStr [])]" "Replies (ok_reply (candidates_body ''happy''))"
                           "app1_module (Some ''secret'')"]
    C2_invalid_request [of "[]" "Replies (ok_reply (candidates_body ''happy''))" "app_module (Some ''secret'')"]
    C2_invalid_request [of "[(''message'', JStr [])]" "Replies (ok_reply (candidates_body ''happy''))"
                           "app1_module None"]
  by (simp add: message_request_def app_module_def app1_module_def main_module_def no_key_def)

text \<open>
  The claim as worded fails in offline mode: \<^verbatim>\<open>app.py\<close> without a key answers the
  empty message with 200 and the mock sentiment, after printing its warning.
\<close>

theorem C2_counterexample:
  "app_get_sentiment_route (Replies (ok_reply (candidates_body ''happy''))) (message_request []) (app_module None)
     = (Inr (Response 200 (JObj [(''sentiment'', JStr ''sad'')])),
        py_print ''Warning: GEMINI_API_KEY not found. Returning a mock sentiment.'' (app_module None))"
  by (simp add: app_get_sentiment_route_def message_request_def app_module_def no_key_def and_then_def
        str_lower_def Let_def)

section \<open>C3: the provider cannot be reached\<close>

text \<open>
  C3, as the code has it. When the call to the provider fails at the network level, every
  variant answers 500 with an \<open>error\<close> field. In \<^verbatim>\<open>app.py\<close> and \<^verbatim>\<open>app1.py\<close> (key
  configured) the body is only \<open>{"error": "Failed to connect to the sentiment analysis
  service"}\<close>. In \<^verbatim>\<open>main.py\<close> the body is the exception's text as \<open>error\<close> together
  with \<open>"sentiment": "happy"\<close>.
\<close>

theorem C3_unreachable:
  "(map_of kvs ''message'' = Some m \<and> py_truthy m \<longrightarrow>
      fst (main_get_sentiment (Unreachable msg) (JObj kvs) w) =
        Inr (Response 500 (JObj [(''error'', JStr msg), (''sentiment'', JStr ''happy'')])))
   \<and> (\<not> no_key (GEMINI_API_KEY (globals w)) \<and> map_of kvs ''message'' = Some m \<longrightarrow>
      fst (app_get_sentiment_route (Unreachable msg) (JObj kvs) w) =
        Inr (Response 500 (JObj [(''error'', JStr ''Failed to connect to the sentiment analysis service'')])))
   \<and> (\<not> no_key (GEMINI_API_KEY (globals w)) \<and> map_of kvs ''message'' = Some m \<and> py_truthy m \<longrightarrow>
      fst (app1_get_sentiment_route (Unreachable msg) (JObj kvs) w) =
        Inr (Response 500 (JObj [(''error'', JStr ''Failed to connect to the sentiment analysis service'')])))"
  by (simp add: main_unreachable app_online app1_online sentiment_try_unreachable)

text \<open>Instances: the message \<open>hello\<close> in each file, the provider refusing the connection.\<close>

theorem C3_unreachable_witness:
  "fst (main_get_sentiment (Unreachable ''Connection refused'') (message_request ''hello'')
          (main_module (Some ''secret'')))
     = Inr (Response 500 (JObj [(''error'', JStr ''Connection refused''), (''sentiment'', JStr ''happy'')]))
   \<and> fst (app_get_sentiment_route (Unreachable ''Connection refused'') (message_request ''hello'')
          (app_module (Some ''secret'')))
     = Inr (Response 500 (JObj [(''error'', JStr ''Failed to connect to the sentiment analysis service'')]))
   \<and> fst (app1_get_sentiment_route (Unreachable ''Connection refused'') (message_request ''hello'')
          (app1_module (Some ''secret'')))
     = Inr (Response 500 (JObj [(''error'', JStr ''Failed to connect to the sentiment analysis service'')]))"
  using
    C3_unreachable [of "[(''message'', JStr ''hello'')]" "JStr ''hello''" "''Connection refused''"
                       "main_module (Some ''secret'')"]
    C3_unreachable [of "[(''message'', JStr ''hello'')]" "JStr ''hello''" "''Connection refused''"
                       "app_module (Some ''secret'')"]
    C3_unreachable [of "[(''message'', JStr ''hello'')]" "JStr ''hello''" "''Connection refused''"
                       "app1_module (Some ''secret'')"]
  by (simp add: message_request_def app_module_def app1_module_def main_module_def no_key_def)

text \<open>
  The claim as worded fails in \<^verbatim>\<open>main.py\<close>: the error response carries the default
  label \<open>happy\<close> next to the error.
\<close>

theorem C3_counterexample:
  "fst (main_get_sentiment (Unreachable ''Connection refused'') (message_request ''hello'')
          (main_module (Some ''secret'')))
     = Inr (Response 500 (JObj [(''error'', JStr ''Connection refused''), (''sentiment'', JStr ''happy'')]))"
  by (simp add: main_get_sentiment_def message_request_def requests_post_def and_then_def main_except_def)

section \<open>C4: the provider rejects the call\<close>

text \<open>
  C4, as the code has it. For every reply with a 4xx or 5xx status (the statuses
  \<^verbatim>\<open>raise_for_status\<close> rejects), the sentiment routes of \<^verbatim>\<open>app.py\<close> and \<^verbatim>\<open>app1.py\<close>
  (key configured) answer with the provider's status code and the body
  \<open>{"error": "API request failed with status <code>"}\<close>. \<open>get_sentiment\<close> of
  \<^verbatim>\<open>main.py\<close> does not look at the provider's status: its answer is the same whatever
  the status is.
\<close>

theorem C4_rejected:
  "(\<not> no_key (GEMINI_API_KEY (globals w)) \<and> map_of kvs ''message'' = Some m \<and>
      400 \<le> status_code r \<and> status_code r < 600 \<longrightarrow>
      fst (app_get_sentiment_route (Replies r) (JObj kvs) w) =
        Inr (Response (status_code r)
               (JObj [(''error'', JStr (''API request failed with status '' @ str_nat (status_code r)))])))
   \<and> (\<not> no_key (GEMINI_API_KEY (globals w)) \<and> map_of kvs ''message'' = Some m \<and> py_truthy m \<and>
      400 \<le> status_code r \<and> status_code r < 600 \<longrightarrow>
      fst (app1_get_sentiment_route (Replies r) (JObj kvs) w) =
        Inr (Response (status_code r)
               (JObj [(''error'', JStr (''API request failed with status '' @ str_nat (status_code r)))])))
   \<and> fst (main_get_sentiment (Replies (r\<lparr>status_code := s\<rparr>)) (JObj kvs) w) =
       fst (main_get_sentiment (Replies r) (JObj kvs) w)"
  by (simp add: app_online app1_online sentiment_try_rejected main_ignores_status)

text \<open>Instances: a 429 in \<^verbatim>\<open>app.py\<close> and a 503 in \<^verbatim>\<open>app1.py\<close>.\<close>

theorem C4_rejected_witness:
  "fst (app_get_sentiment_route
          (Replies \<lparr>status_code = 429, reason = ''Too Many Requests'', json_body = JObj []\<rparr>)
          (message_request ''hello'') (app_module (Some ''secret'')))
     = Inr (Response 429 (JObj [(''error'', JStr ''API request failed with status 429'')]))
   \<and> fst (app1_get_sentiment_route
          (Replies \<lparr>status_code = 503, reason = ''Service Unavailable'', json_body = JObj []\<rparr>)
          (message_request ''hello'') (app1_module (Some ''secret'')))
     = Inr (Response 503 (JObj [(''error'', JStr ''API request failed with status 503'')]))"
  using
    C4_rejected [of "app_module (Some ''secret'')" "[(''message'', JStr ''hello'')]" "JStr ''hello''"
                    "\<lparr>status_code = 429, reason = ''Too Many Requests'', json_body = JObj []\<rparr>"]
    C4_rejected [of "app1_module (Some ''secret'')" "[(''message'', JStr ''hello'')]" "JStr ''hello''"
                    "\<lparr>status_code = 503, reason = ''Service Unavailable'', json_body = JObj []\<rparr>"]
  by (simp add: message_request_def app_module_def app1_module_def no_key_def str_nat.simps digit_def)

text \<open>
  The claim as worded fails in \<^verbatim>\<open>main.py\<close>: a 503 reply with the body \<open>{}\<close> is answered
  with 200 and the default label.
\<close>

theorem C4_counterexample:
  "fst (main_get_sentiment
          (Replies \<lparr>status_code = 503, reason = ''Service Unavailable'', json_body = JObj []\<rparr>)
          (message_request ''hello'') (main_module (Some ''secret'')))
     = Inr (Response 200 (JObj [(''sentiment'', JStr ''happy'')]))"
  by (simp add: main_get_sentiment_def message_request_def requests_post_def and_then_def main_content_def
        str_strip_def str_lower_def)

section \<open>C5: the offline heuristic\<close>

text \<open>
  C5, as the code has it. Without a key, \<open>get_sentiment_route\<close> of \<^verbatim>\<open>app.py\<close> answers
  \<open>happy\<close> for \<open>this is great\<close> and \<open>sad\<close> for \<open>this is bad\<close> (its keywords are
  \<open>good\<close> and \<open>great\<close>). The one of \<^verbatim>\<open>app1.py\<close> knows only the keyword \<open>good\<close>: it
  answers \<open>sad\<close> for both messages, and \<open>happy\<close> for \<open>this is good\<close>. Neither calls the
  provider.
\<close>

theorem C5_offline_heuristic:
  "no_key (GEMINI_API_KEY (globals w)) \<longrightarrow>
     fst (app_get_sentiment_route env (message_request ''this is great'') w) =
       Inr (Response 200 (JObj [(''sentiment'', JStr ''happy'')]))
     \<and> fst (app_get_sentiment_route env (message_request ''this is bad'') w) =
       Inr (Response 200 (JObj [(''sentiment'', JStr ''sad'')]))
     \<and> sent (snd (app_get_sentiment_route env (message_request ''this is great'') w)) = sent w
     \<and> sent (snd (app_get_sentiment_route env (message_request ''this is bad'') w)) = sent w
     \<and> fst (app1_get_sentiment_route env (message_request ''this is great'') w) =
       Inr (Response 200 (JObj [(''sentiment'', JStr ''sad'')]))
     \<and> fst (app1_get_sentiment_route env (message_request ''this is bad'') w) =
       Inr (Response 200 (JObj [(''sentiment'', JStr ''sad'')]))
     \<and> fst (app1_get_sentiment_route env (message_request ''this is good'') w) =
       Inr (Response 200 (JObj [(''sentiment'', JStr ''happy'')]))
     \<and> sent (snd (app1_get_sentiment_route env (message_request ''this is great'') w)) = sent w
     \<and> sent (snd (app1_get_sentiment_route env (message_request ''this is bad'') w)) = sent w"
  by (simp add: app_get_sentiment_route_def app1_get_sentiment_route_def message_request_def and_then_def
        str_lower_def lower_char_def upper_chars_def lower_chars_def py_print_def Let_def)

text \<open>Instances: \<^verbatim>\<open>app.py\<close> with no key, \<^verbatim>\<open>app1.py\<close> with an empty key.\<close>

theorem C5_offline_heuristic_witness:
  "fst (app_get_sentiment_route (Unreachable ''no network'') (message_request ''this is great'') (app_module None)) =
       Inr (Response 200 (JObj [(''sentiment'', JStr ''happy'')]))
   \<and> fst (app_get_sentiment_route (Unreachable ''no network'') (message_request ''this is bad'') (app_module None)) =
       Inr (Response 200 (JObj [(''sentiment'', JStr ''sad'')]))
   \<and> sent (snd (app_get_sentiment_route (Unreachable ''no network'') (message_request ''this is great'')
        (app_module None))) = []
   \<and> fst (app1_get_sentiment_route (Unreachable ''no network'') (message_request ''this is good'')
        (app1_module (Some []))) =
       Inr (Response 200 (JObj [(''sentiment'', JStr ''happy'')]))"
  using C5_offline_heuristic [of "app_module None" "Unreachable ''no network''"]
    C5_offline_heuristic [of "app1_module (Some [])" "Unreachable ''no network''"]
  by (simp add: app_module_def app1_module_def no_key_def)

text \<open>
  The claim as worded fails in \<^verbatim>\<open>app1.py\<close>: offline, \<open>this is great\<close> is classified
  \<open>sad\<close>.
\<close>

theorem C5_counterexample:
  "fst (app1_get_sentiment_route (Unreachable ''no network'') (message_request ''this is great'') (app1_module None)) =
       Inr (Response 200 (JObj [(''sentiment'', JStr ''sad'')]))"
  by (simp add: app1_get_sentiment_route_def message_request_def and_then_def app1_module_def no_key_def
        str_lower_def lower_char_def upper_chars_def lower_chars_def Let_def)

section \<open>C6: the round trip of the reply \<open>Happy\<close>\<close>

text \<open>
  C6. Let the provider's reply be a success (not a 4xx or 5xx) with the body
  \<open>{"candidates":[{"content":{"parts":[{"text":"Happy"}]}}]}\<close>. For any request and any
  state, if the handler reaches the provider (its call is added to the calls sent), the
  answer is 200 with \<open>{"sentiment":"happy"}\<close>. This holds for \<^verbatim>\<open>app.py\<close> and
  \<^verbatim>\<open>app1.py\<close>, where the text is trimmed and lower-cased, and also for \<^verbatim>\<open>main.py\<close>,
  where the body has no \<open>choices\<close> and the default label is \<open>happy\<close>.
\<close>

theorem C6_round_trip:
  assumes "json_body r = candidates_body ''Happy''" and "\<not> (400 \<le> status_code r \<and> status_code r < 600)"
  shows
    "(sent (snd (app_get_sentiment_route (Replies r) req w)) \<noteq> sent w \<longrightarrow>
        fst (app_get_sentiment_route (Replies r) req w) = Inr (Response 200 (JObj [(''sentiment'', JStr ''happy'')])))
     \<and> (sent (snd (app1_get_sentiment_route (Replies r) req w)) \<noteq> sent w \<longrightarrow>
        fst (app1_get_sentiment_route (Replies r) req w) = Inr (Response 200 (JObj [(''sentiment'', JStr ''happy'')])))
     \<and> (sent (snd (main_get_sentiment (Replies r) req w)) \<noteq> sent w \<longrightarrow>
        fst (main_get_sentiment (Replies r) req w) = Inr (Response 200 (JObj [(''sentiment'', JStr ''happy'')])))"
proof -
  have folded: "str_lower (str_strip ''Happy'') = ''happy''"
    by (simp add: str_lower_def str_strip_def isspace_def lower_char_def upper_chars_def lower_chars_def)
  have extracted: "gemini_text (json_body r) = Inr (JStr ''Happy'')"
    using assms(1) by (simp add: gemini_text_candidates_body)
  have tried: "fst (sentiment_try (Replies r) m sp w) = Inr (Response 200 (JObj [(''sentiment'', JStr ''happy'')]))"
    for m sp
    using sentiment_try_text [OF assms(2) extracted] folded by simp
  have no_choices: "main_content (json_body r) = Inr (JStr [])"
    using assms(1) by (simp add: main_content_def candidates_body_def and_then_def)
  have app: "fst (app_get_sentiment_route (Replies r) req w) = Inr (Response 200 (JObj [(''sentiment'', JStr ''happy'')]))"
    if "sent (snd (app_get_sentiment_route (Replies r) req w)) \<noteq> sent w"
    using app_call_made [OF that] tried by auto
  have app1: "fst (app1_get_sentiment_route (Replies r) req w) = Inr (Response 200 (JObj [(''sentiment'', JStr ''happy'')]))"
    if "sent (snd (app1_get_sentiment_route (Replies r) req w)) \<noteq> sent w"
    using app1_call_made [OF that] tried by auto
  have main: "fst (main_get_sentiment (Replies r) req w) = Inr (Response 200 (JObj [(''sentiment'', JStr ''happy'')]))"
    if "sent (snd (main_get_sentiment (Replies r) req w)) \<noteq> sent w"
  proof -
    from main_call_made [OF that] obtain kvs m
      where "req = JObj kvs" "map_of kvs ''message'' = Some m" "py_truthy m" by blast
    then show ?thesis
      by (simp add: main_online no_choices and_then_def str_strip_def str_lower_def)
  qed
  from app app1 main show ?thesis by blast
qed

text \<open>Instances: the message \<open>hello\<close> in each file, with a key configured.\<close>

theorem C6_round_trip_witness:
  "fst (app_get_sentiment_route (Replies (ok_reply (candidates_body ''Happy''))) (message_request ''hello'')
          (app_module (Some ''secret'')))
     = Inr (Response 200 (JObj [(''sentiment'', JStr ''happy'')]))
   \<and> fst (app1_get_sentiment_route (Replies (ok_reply (candidates_body ''Happy''))) (message_request ''hello'')
          (app1_module (Some ''secret'')))
     = Inr (Response 200 (JObj [(''sentiment'', JStr ''happy'')]))
   \<and> fst (main_get_sentiment (Replies (ok_reply (candidates_body ''Happy''))) (message_request ''hello'')
          (main_module (Some ''secret'')))
     = Inr (Response 200 (JObj [(''sentiment'', JStr ''happy'')]))"
proof -
  have body: "json_body (ok_reply (candidates_body ''Happy'')) = candidates_body ''Happy''"
    by (simp add: ok_reply_def)
  have status: "\<not> (400 \<le> status_code (ok_reply (candidates_body ''Happy''))
                   \<and> status_code (ok_reply (candidates_body ''Happy'')) < 600)"
    by (simp add: ok_reply_def)
  have sent_app: "sent (snd (app_get_sentiment_route (Replies (ok_reply (candidates_body ''Happy'')))
                    (message_request ''hello'') (app_module (Some ''secret'')))) \<noteq> sent (app_module (Some ''secret''))"
    by (simp add: message_request_def app_online app_module_def no_key_def sentiment_try_eq snd_gemini_call
          fst_gemini_call_ok ok_reply_def gemini_text_candidates_body and_then_def)
  have sent_app1: "sent (snd (app1_get_sentiment_route (Replies (ok_reply (candidates_body ''Happy'')))
                    (message_request ''hello'') (app1_module (Some ''secret'')))) \<noteq> sent (app1_module (Some ''secret''))"
    by (simp add: message_request_def app1_online app1_module_def no_key_def sentiment_try_eq snd_gemini_call
          fst_gemini_call_ok ok_reply_def gemini_text_candidates_body and_then_def)
  have sent_main: "sent (snd (main_get_sentiment (Replies (ok_reply (candidates_body ''Happy'')))
                    (message_request ''hello'') (main_module (Some ''secret'')))) \<noteq> sent (main_module (Some ''secret''))"
    by (simp add: message_request_def main_get_sentiment_def requests_post_def main_module_def split: sum.splits)
  show ?thesis
    using C6_round_trip [OF body status, of "message_request ''hello''" "app_module (Some ''secret'')"]
      C6_round_trip [OF body status, of "message_request ''hello''" "app1_module (Some ''secret'')"]
      C6_round_trip [OF body status, of "message_request ''hello''" "main_module (Some ''secret'')"]
      sent_app sent_app1 sent_main
    by blast
qed

section \<open>C7: replies without the expected fields\<close>

text \<open>
  C7, as the code has it. \<open>get_sentiment\<close> of \<^verbatim>\<open>main.py\<close> never lets an exception
  escape: when reading the reply raises, it answers 500 with the exception's text as
  \<open>error\<close> (and \<open>"sentiment": "happy"\<close>); but it first replaces each missing level by a
  default, so a reply body without \<open>choices\<close> is answered with 200 and
  \<open>{"sentiment": "happy"}\<close>, not with an error. The chat route of \<^verbatim>\<open>app1.py\<close> (key
  configured, reply not a 4xx or 5xx) answers 500 with \<open>{"error": "An unexpected error
  occurred."}\<close> whenever reading the reply raises. The sentiment routes of \<^verbatim>\<open>app.py\<close>
  and \<^verbatim>\<open>app1.py\<close> answer 500 with \<open>{"error": "Invalid response structure from sentiment
  service"}\<close> when the lookup raises \<open>KeyError\<close> or \<open>IndexError\<close> (a key of the path is
  missing, or a list on it is empty).
\<close>

theorem C7_malformed_reply:
  "(\<exists>resp. fst (main_get_sentiment env req w) = Inr resp)
   \<and> (map_of kvs ''message'' = Some m \<and> py_truthy m \<and>
        and_then (main_content (json_body r)) py_strip = Inl e \<longrightarrow>
      fst (main_get_sentiment (Replies r) (JObj kvs) w) =
        Inr (Response 500 (JObj [(''error'', JStr (py_str e)), (''sentiment'', JStr ''happy'')])))
   \<and> (map_of kvs ''message'' = Some m \<and> py_truthy m \<and>
        json_body r = JObj body_fields \<and> map_of body_fields ''choices'' = None \<longrightarrow>
      fst (main_get_sentiment (Replies r) (JObj kvs) w) =
        Inr (Response 200 (JObj [(''sentiment'', JStr ''happy'')])))
   \<and> (\<not> no_key (GEMINI_API_KEY (globals w)) \<and> map_of kvs ''message'' = Some m \<and> py_truthy m \<and>
        \<not> (400 \<le> status_code r \<and> status_code r < 600) \<and>
        and_then (gemini_text (json_body r)) py_strip = Inl e \<longrightarrow>
      fst (continue_chat_route (Replies r) (JObj kvs) w) =
        Inr (Response 500 (JObj [(''error'', JStr ''An unexpected error occurred.'')])))
   \<and> (\<not> no_key (GEMINI_API_KEY (globals w)) \<and> map_of kvs ''message'' = Some m \<and>
        \<not> (400 \<le> status_code r \<and> status_code r < 600) \<and>
        (gemini_text (json_body r) = Inl (KeyError k) \<or> gemini_text (json_body r) = Inl (IndexError k)) \<longrightarrow>
      fst (app_get_sentiment_route (Replies r) (JObj kvs) w) =
        Inr (Response 500 (JObj [(''error'', JStr ''Invalid response structure from sentiment service'')])))
   \<and> (\<not> no_key (GEMINI_API_KEY (globals w)) \<and> map_of kvs ''message'' = Some m \<and> py_truthy m \<and>
        \<not> (400 \<le> status_code r \<and> status_code r < 600) \<and>
        (gemini_text (json_body r) = Inl (KeyError k) \<or> gemini_text (json_body r) = Inl (IndexError k)) \<longrightarrow>
      fst (app1_get_sentiment_route (Replies r) (JObj kvs) w) =
        Inr (Response 500 (JObj [(''error'', JStr ''Invalid response structure from sentiment service'')])))"
proof (intro conjI impI)
  show "\<exists>resp. fst (main_get_sentiment env req w) = Inr resp"
    by (rule main_never_raises)
next
  assume "map_of kvs ''message'' = Some m \<and> py_truthy m \<and>
        and_then (main_content (json_body r)) py_strip = Inl e"
  then show "fst (main_get_sentiment (Replies r) (JObj kvs) w) =
        Inr (Response 500 (JObj [(''error'', JStr (py_str e)), (''sentiment'', JStr ''happy'')]))"
    by (auto simp add: main_online and_then_def main_except_def split: sum.splits)
next
  assume "map_of kvs ''message'' = Some m \<and> py_truthy m \<and>
        json_body r = JObj body_fields \<and> map_of body_fields ''choices'' = None"
  then show "fst (main_get_sentiment (Replies r) (JObj kvs) w) =
        Inr (Response 200 (JObj [(''sentiment'', JStr ''happy'')]))"
    by (simp add: main_online main_content_def and_then_def str_strip_def str_lower_def)
next
  assume "\<not> no_key (GEMINI_API_KEY (globals w)) \<and> map_of kvs ''message'' = Some m \<and> py_truthy m \<and>
        \<not> (400 \<le> status_code r \<and> status_code r < 600) \<and>
        and_then (gemini_text (json_body r)) py_strip = Inl e"
  then show "fst (continue_chat_route (Replies r) (JObj kvs) w) =
        Inr (Response 500 (JObj [(''error'', JStr ''An unexpected error occurred.'')]))"
    using chat_malformed [of w kvs m r e] by blast
next
  assume "\<not> no_key (GEMINI_API_KEY (globals w)) \<and> map_of kvs ''message'' = Some m \<and>
        \<not> (400 \<le> status_code r \<and> status_code r < 600) \<and>
        (gemini_text (json_body r) = Inl (KeyError k) \<or> gemini_text (json_body r) = Inl (IndexError k))"
  then show "fst (app_get_sentiment_route (Replies r) (JObj kvs) w) =
        Inr (Response 500 (JObj [(''error'', JStr ''Invalid response structure from sentiment service'')]))"
    using sentiment_try_missing [of r k] by (simp add: app_online)
next
  assume "\<not> no_key (GEMINI_API_KEY (globals w)) \<and> map_of kvs ''message'' = Some m \<and> py_truthy m \<and>
        \<not> (400 \<le> status_code r \<and> status_code r < 600) \<and>
        (gemini_text (json_body r) = Inl (KeyError k) \<or> gemini_text (json_body r) = Inl (IndexError k))"
  then show "fst (app1_get_sentiment_route (Replies r) (JObj kvs) w) =
        Inr (Response 500 (JObj [(''error'', JStr ''Invalid response structure from sentiment service'')]))"
    using sentiment_try_missing [of r k] by (simp add: app1_online)
qed

text \<open>
  Instances: in \<^verbatim>\<open>main.py\<close> an empty \<open>choices\<close> list (500) and the body \<open>{}\<close> (200); in the
  chat route a null \<open>candidates\<close>; in the sentiment routes a missing \<open>candidates\<close> key and
  an empty \<open>candidates\<close> list.
\<close>

theorem C7_malformed_reply_witness:
  "fst (main_get_sentiment (Replies (ok_reply (JObj [(''choices'', JArr [])]))) (message_request ''hello'')
          (main_module (Some ''secret'')))
     = Inr (Response 500 (JObj [(''error'', JStr ''list index out of range''), (''sentiment'', JStr ''happy'')]))
   \<and> fst (main_get_sentiment (Replies (ok_reply (JObj []))) (message_request ''hello'')
          (main_module (Some ''secret'')))
     = Inr (Response 200 (JObj [(''sentiment'', JStr ''happy'')]))
   \<and> fst (continue_chat_route (Replies (ok_reply (JObj [(''candidates'', JNull)]))) (message_request ''hello'')
          (app1_module (Some ''secret'')))
     = Inr (Response 500 (JObj [(''error'', JStr ''An unexpected error occurred.'')]))
   \<and> fst (app_get_sentiment_route (Replies (ok_reply (JObj []))) (message_request ''hello'')
          (app_module (Some ''secret'')))
     = Inr (Response 500 (JObj [(''error'', JStr ''Invalid response structure from sentiment service'')]))
   \<and> fst (app1_get_sentiment_route (Replies (ok_reply (JObj [(''candidates'', JArr [])]))) (message_request ''hello'')
          (app1_module (Some ''secret'')))
     = Inr (Response 500 (JObj [(''error'', JStr ''Invalid response structure from sentiment service'')]))"
  using
    C7_malformed_reply [of "Replies (ok_reply (JObj []))" "message_request ''hello''" "main_module (Some ''secret'')"
       "[(''message'', JStr ''hello'')]" "JStr ''hello''" "ok_reply (JObj [(''choices'', JArr [])])"
       "IndexError ''list index out of range''" "[]" "[]"]
    C7_malformed_reply [of "Replies (ok_reply (JObj []))" "message_request ''hello''" "main_module (Some ''secret'')"
       "[(''message'', JStr ''hello'')]" "JStr ''hello''" "ok_reply (JObj [])"
       "IndexError ''list index out of range''" "[]" "[]"]
    C7_malformed_reply [of "Replies (ok_reply (JObj []))" "message_request ''hello''" "app1_module (Some ''secret'')"
       "[(''message'', JStr ''hello'')]" "JStr ''hello''" "ok_reply (JObj [(''candidates'', JNull)])"
       "TypeError (CHR 0x27 # ''NoneType' object is not subscriptable'')" "[]" "[]"]
    C7_malformed_reply [of "Replies (ok_reply (JObj []))" "message_request ''hello''" "app_module (Some ''secret'')"
       "[(''message'', JStr ''hello'')]" "JStr ''hello''" "ok_reply (JObj [])"
       "KeyError (CHR 0x27 # ''candidates'')" "[]" "CHR 0x27 # ''candidates'' @ [CHR 0x27]"]
    C7_malformed_reply [of "Replies (ok_reply (JObj []))" "message_request ''hello''" "app1_module (Some ''secret'')"
       "[(''message'', JStr ''hello'')]" "JStr ''hello''" "ok_reply (JObj [(''candidates'', JArr [])])"
       "KeyError []" "[]" "''list index out of range''"]
  by (simp add: eval_defs not_subscriptable_def)

text \<open>
  The claim as worded fails in \<^verbatim>\<open>main.py\<close>: the reply body \<open>{}\<close> has none of the
  expected fields and is answered with 200 and the default label, not with an error.
\<close>

theorem C7_counterexample:
  "fst (main_get_sentiment (Replies (ok_reply (JObj []))) (message_request ''hello'') (main_module (Some ''secret'')))
     = Inr (Response 200 (JObj [(''sentiment'', JStr ''happy'')]))"
  by (simp add: main_get_sentiment_def message_request_def requests_post_def and_then_def main_content_def
        ok_reply_def str_strip_def str_lower_def)

text \<open>
  Outside the statement above: in the sentiment routes of \<^verbatim>\<open>app.py\<close> and \<^verbatim>\<open>app1.py\<close> a
  \<open>TypeError\<close> or an \<open>AttributeError\<close> raised by the lookup matches none of the
  \<^verbatim>\<open>except\<close> clauses and leaves the handler.
\<close>

lemma sentiment_route_escape:
  "fst (app_get_sentiment_route (Replies (ok_reply (JObj [(''candidates'', JNull)]))) (message_request ''hello'')
          (app_module (Some ''secret'')))
     = Inl (TypeError (CHR 0x27 # ''NoneType' object is not subscriptable''))
   \<and> fst (app1_get_sentiment_route (Replies (ok_reply (JObj [(''candidates'', JArr [JObj [(''content'', JObj [(''parts'', JArr [JObj [(''text'', JNum 5)]])])]])]))) (message_request ''hello'')
          (app1_module (Some ''secret'')))
     = Inl (AttributeError (CHR 0x27 # ''int' object has no attribute 'strip'' @ [CHR 0x27]))"
  by (simp add: message_request_def app_online app1_online app_module_def app1_module_def no_key_def
        sentiment_try_eq fst_gemini_call_ok ok_reply_def gemini_text_def and_then_def not_subscriptable_def
        sentiment_except_def no_attribute_def)

section \<open>C8: the chat reply\<close>

text \<open>
  C8, as the code has it. With a key configured, when the request has a truthy message and
  the reply (not a 4xx or 5xx) yields a string at \<open>candidates[0].content.parts[0].text\<close>,
  \<open>continue_chat_route\<close> answers 200 with that text, trimmed and otherwise unchanged, in
  the \<open>response\<close> field; and every 200 answer of the route is of this form. The field
  is the empty string exactly when the provider's text consists of whitespace only, so it is
  non-empty whenever the text has a character that is not whitespace. Without a key the
  route answers 200 with its fixed placeholder and changes nothing.
\<close>

theorem C8_chat_passthrough:
  "(\<not> no_key (GEMINI_API_KEY (globals w)) \<and> map_of kvs ''message'' = Some m \<and> py_truthy m \<and>
      \<not> (400 \<le> status_code r \<and> status_code r < 600) \<and> gemini_text (json_body r) = Inr (JStr t) \<longrightarrow>
      fst (continue_chat_route (Replies r) (JObj kvs) w) =
        Inr (Response 200 (JObj [(''response'', JStr (str_strip t))])))
   \<and> (\<not> no_key (GEMINI_API_KEY (globals w)) \<and> fst (continue_chat_route env req w) = Inr (Response 200 b) \<longrightarrow>
      (\<exists>r' t'. env = Replies r' \<and> gemini_text (json_body r') = Inr (JStr t')
                \<and> b = JObj [(''response'', JStr (str_strip t'))]))
   \<and> (str_strip t = [] \<longleftrightarrow> list_all isspace t)
   \<and> (no_key (GEMINI_API_KEY (globals w)) \<longrightarrow>
      continue_chat_route env req w =
        (Inr (Response 200
           (JObj [(''response'', JStr ''I'm in offline mode right now, but we can chat more later!'')])), w))"
proof (intro conjI impI)
  assume "\<not> no_key (GEMINI_API_KEY (globals w)) \<and> map_of kvs ''message'' = Some m \<and> py_truthy m \<and>
      \<not> (400 \<le> status_code r \<and> status_code r < 600) \<and> gemini_text (json_body r) = Inr (JStr t)"
  then show "fst (continue_chat_route (Replies r) (JObj kvs) w) =
        Inr (Response 200 (JObj [(''response'', JStr (str_strip t))]))"
    using chat_text [of w kvs m r t] by blast
next
  assume "\<not> no_key (GEMINI_API_KEY (globals w)) \<and> fst (continue_chat_route env req w) = Inr (Response 200 b)"
  then show "\<exists>r' t'. env = Replies r' \<and> gemini_text (json_body r') = Inr (JStr t')
                \<and> b = JObj [(''response'', JStr (str_strip t'))]"
    using chat_success [of w env req b] by blast
next
  show "str_strip t = [] \<longleftrightarrow> list_all isspace t"
    by (rule str_strip_empty_iff)
next
  assume "no_key (GEMINI_API_KEY (globals w))"
  then show "continue_chat_route env req w =
        (Inr (Response 200
           (JObj [(''response'', JStr ''I'm in offline mode right now, but we can chat more later!'')])), w)"
    by (simp add: continue_chat_route_def)
qed

text \<open>
  Instances: the reply text \<open>"  Hello there! "\<close> with a key, in both directions, and the
  placeholder without a key.
\<close>

theorem C8_chat_passthrough_witness:
  "fst (continue_chat_route (Replies (ok_reply (candidates_body ''  Hello there! ''))) (message_request ''hello'')
          (app1_module (Some ''secret'')))
     = Inr (Response 200 (JObj [(''response'', JStr ''Hello there!'')]))
   \<and> (\<exists>r' t'. Replies (ok_reply (candidates_body ''  Hello there! '')) = Replies r'
          \<and> gemini_text (json_body r') = Inr (JStr t')
          \<and> JObj [(''response'', JStr ''Hello there!'')] = JObj [(''response'', JStr (str_strip t'))])
   \<and> continue_chat_route (Unreachable ''no network'') (message_request ''hello'') (app1_module None)
     = (Inr (Response 200
          (JObj [(''response'', JStr ''I'm in offline mode right now, but we can chat more later!'')])),
        app1_module None)"
proof -
  have online: "\<not> no_key (GEMINI_API_KEY (globals (app1_module (Some ''secret''))))
      \<and> map_of [(''message'', JStr ''hello'')] ''message'' = Some (JStr ''hello'') \<and> py_truthy (JStr ''hello'')
      \<and> \<not> (400 \<le> status_code (ok_reply (candidates_body ''  Hello there! ''))
            \<and> status_code (ok_reply (candidates_body ''  Hello there! '')) < 600)
      \<and> gemini_text (json_body (ok_reply (candidates_body ''  Hello there! ''))) = Inr (JStr ''  Hello there! '')"
    by (simp add: app1_module_def no_key_def ok_reply_def gemini_text_candidates_body)
  have offline: "no_key (GEMINI_API_KEY (globals (app1_module None)))"
    by (simp add: app1_module_def no_key_def)
  have stripped: "str_strip ''  Hello there! '' = ''Hello there!''"
    by (simp add: str_strip_def isspace_def)
  from online
    C8_chat_passthrough [of "app1_module (Some ''secret'')" "[(''message'', JStr ''hello'')]" "JStr ''hello''"
       "ok_reply (candidates_body ''  Hello there! '')" "''  Hello there! ''"
       "Unreachable ''no network''" "message_request ''hello''" "JNull"]
  have first: "fst (continue_chat_route (Replies (ok_reply (candidates_body ''  Hello there! '')))
          (JObj [(''message'', JStr ''hello'')]) (app1_module (Some ''secret'')))
     = Inr (Response 200 (JObj [(''response'', JStr (str_strip ''  Hello there! ''))]))"
    by blast
  from online first
    C8_chat_passthrough [of "app1_module (Some ''secret'')" "[(''message'', JStr ''hello'')]" "JStr ''hello''"
       "ok_reply (candidates_body ''  Hello there! '')" "''  Hello there! ''"
       "Replies (ok_reply (candidates_body ''  Hello there! ''))" "JObj [(''message'', JStr ''hello'')]"
       "JObj [(''response'', JStr (str_strip ''  Hello there! ''))]"]
  have converse: "\<exists>r' t'. Replies (ok_reply (candidates_body ''  Hello there! '')) = Replies r'
          \<and> gemini_text (json_body r') = Inr (JStr t')
          \<and> JObj [(''response'', JStr (str_strip ''  Hello there! ''))] = JObj [(''response'', JStr (str_strip t'))]"
    by blast
  from offline
    C8_chat_passthrough [of "app1_module None" "[(''message'', JStr ''hello'')]" "JStr ''hello''"
       "ok_reply (candidates_body ''  Hello there! '')" "''  Hello there! ''"
       "Unreachable ''no network''" "message_request ''hello''" "JNull"]
  have second: "continue_chat_route (Unreachable ''no network'') (message_request ''hello'') (app1_module None)
     = (Inr (Response 200
          (JObj [(''response'', JStr ''I'm in offline mode right now, but we can chat more later!'')])),
        app1_module None)"
    by blast
  from first second converse stripped show ?thesis
    by (simp add: message_request_def)
qed

text \<open>
  The claim as worded fails for \<open>chat("hello")\<close> when the provider's text is a single
  space: the answer is 200 with an empty \<open>response\<close>.
\<close>

theorem C8_counterexample:
  "fst (continue_chat_route (Replies (ok_reply (candidates_body '' ''))) (message_request ''hello'')
          (app1_module (Some ''secret'')))
     = Inr (Response 200 (JObj [(''response'', JStr [])]))"
proof -
  have "fst (continue_chat_route (Replies (ok_reply (candidates_body '' ''))) (JObj [(''message'', JStr ''hello'')])
          (app1_module (Some ''secret'')))
     = Inr (Response 200 (JObj [(''response'', JStr (str_strip '' ''))]))"
    by (rule chat_text [where m = "JStr ''hello''"]) (simp_all add: app1_module_def no_key_def ok_reply_def gemini_text_candidates_body)
  then show ?thesis
    by (simp add: message_request_def str_strip_def isspace_def)
qed

text \<open>The same happens for a text that is a single no-break space.\<close>

lemma chat_no_break_space:
  "fst (continue_chat_route (Replies (ok_reply (candidates_body [CHR 0xA0]))) (message_request ''hello'')
          (app1_module (Some ''secret'')))
     = Inr (Response 200 (JObj [(''response'', JStr [])]))"
proof -
  have "fst (continue_chat_route (Replies (ok_reply (candidates_body [CHR 0xA0]))) (JObj [(''message'', JStr ''hello'')])
          (app1_module (Some ''secret'')))
     = Inr (Response 200 (JObj [(''response'', JStr (str_strip [CHR 0xA0]))]))"
    by (rule chat_text [where m = "JStr ''hello''"])
       (simp_all add: app1_module_def no_key_def ok_reply_def gemini_text_candidates_body)
  then show ?thesis
    by (simp add: message_request_def latin1_text)
qed

section \<open>C9: what a handler changes\<close>




section \<open>C10: the default label of main.py\<close>



end
